theory Spec2Isabelle
  imports Complex_Main
begin

section \<open>Errors of the training script\<close>

text \<open>
  The script \<^verbatim>\<open>train_sae.py\<close> stops at the first Python exception. The exceptions
  that the modelled parts can raise are values of the type below.
\<close>

datatype error =
    FileNotFound int         \<comment> \<open>\<^verbatim>\<open>torch.load\<close> of a partition file that does not exist\<close>
  | ZeroDivisionError        \<comment> \<open>\<^verbatim>\<open>//\<close> by zero\<close>
  | AssertionError nat int int  \<comment> \<open>the short-batch assertion: length of the batch, step, partition number\<close>
  | ShapeError               \<comment> \<open>tensor shapes that do not fit\<close>
  | IndexError               \<comment> \<open>an index outside a list or tensor\<close>

section \<open>Slicing\<close>

text \<open>
  Python's \<^verbatim>\<open>xs[start:stop]\<close> on a sequence of length \<open>len\<close> (a tensor sliced along
  its first dimension behaves alike): a negative bound counts from the end, and every
  bound is clamped into \<open>0..len\<close>. A missing bound is \<open>None\<close>.
\<close>

definition slice_bound :: "nat \<Rightarrow> int \<Rightarrow> nat" where
  "slice_bound len i = (if i < 0 then nat (max 0 (int len + i)) else min len (nat i))"

definition py_slice :: "'a list \<Rightarrow> int option \<Rightarrow> int option \<Rightarrow> 'a list" where
  "py_slice xs start stop =
     (let lo = (case start of None \<Rightarrow> 0 | Some i \<Rightarrow> slice_bound (length xs) i);
          hi = (case stop of None \<Rightarrow> length xs | Some j \<Rightarrow> slice_bound (length xs) j)
      in take (hi - lo) (drop lo xs))"

section \<open>The sharded activation stream (lines 144--152 and 213--235)\<close>

text \<open>
  The directory \<^verbatim>\<open>sae_data\<close> is a list of partitions; partition \<open>i\<close> is the file
  \<^verbatim>\<open>sae_data/sae_data_i.pt\<close>, a sequence of examples. \<^verbatim>\<open>torch.load\<close> of a file that
  is not there raises.
\<close>

definition torch_load :: "'a list list \<Rightarrow> int \<Rightarrow> error + 'a list" where
  "torch_load sae_data i =
     (if 0 \<le> i \<and> i < int (length sae_data) then Inr (sae_data ! nat i) else Inl (FileNotFound i))"

text \<open>The mutable variables of the batch-loading logic.\<close>

record 'a loader =
  current_part_index :: int
  current_part :: "'a list"
  offset :: int

text \<open>The assertion of line 235.\<close>

definition assert_len :: "int \<Rightarrow> int \<Rightarrow> 'a list \<Rightarrow> 'a loader \<Rightarrow> error + ('a list \<times> 'a loader)" where
  "assert_len batch_size step batch st =
     (if int (length batch) = batch_size then Inr (batch, st)
      else Inl (AssertionError (length batch) step (current_part_index st)))"

text \<open>
  One pass through lines 217--235: the batch of step \<open>step\<close>, and the variables after it.
\<close>

definition load_batch ::
  "'a list list \<Rightarrow> int \<Rightarrow> int \<Rightarrow> 'a loader \<Rightarrow> int \<Rightarrow> error + ('a list \<times> 'a loader)" where
  "load_batch sae_data batch_size examples_per_part st step =
     (let n_parts = int (length sae_data);
          batch_start = step * batch_size - current_part_index st * examples_per_part - offset st;
          batch_end = (step + 1) * batch_size - current_part_index st * examples_per_part - offset st
      in if batch_end > examples_per_part \<and> current_part_index st < n_parts - 1 then
           (let remaining = examples_per_part - batch_start;
                batch = py_slice (current_part st) (Some batch_start) None
            in case torch_load sae_data (current_part_index st + 1) of
                 Inl e \<Rightarrow> Inl e
               | Inr part \<Rightarrow>
                   assert_len batch_size step
                     (batch @ py_slice part None (Some (batch_size - remaining)))
                     \<lparr>current_part_index = current_part_index st + 1,
                      current_part = part,
                      offset = batch_size - remaining\<rparr>)
         else assert_len batch_size step
                (py_slice (current_part st) (Some batch_start) (Some batch_end)) st)"

text \<open>
  The loop of line 213 over a list of steps. It returns, per step, the batch and the
  loader variables after the step; an exception ends the run.
\<close>

fun run_steps ::
  "'a list list \<Rightarrow> int \<Rightarrow> int \<Rightarrow> 'a loader \<Rightarrow> int list \<Rightarrow> error + ('a list \<times> 'a loader) list" where
  "run_steps sae_data batch_size examples_per_part st [] = Inr []"
| "run_steps sae_data batch_size examples_per_part st (step # steps) =
     (case load_batch sae_data batch_size examples_per_part st step of
        Inl e \<Rightarrow> Inl e
      | Inr (batch, st') \<Rightarrow>
          (case run_steps sae_data batch_size examples_per_part st' steps of
             Inl e \<Rightarrow> Inl e
           | Inr rest \<Rightarrow> Inr ((batch, st') # rest)))"

text \<open>\<^verbatim>\<open>range(k)\<close> for a Python integer \<open>k\<close>: empty when \<open>k \<le> 0\<close>.\<close>

definition py_range :: "int \<Rightarrow> int list" where
  "py_range k = map int [0..<nat k]"

text \<open>
  Start-up (lines 145--152) followed by the training loop: the first partition is
  loaded, \<open>examples_per_part\<close> is its length, and the loop runs
  \<open>total_training_examples // batch_size\<close> steps.
\<close>

definition training_trace :: "'a list list \<Rightarrow> int \<Rightarrow> error + ('a list \<times> 'a loader) list" where
  "training_trace sae_data batch_size =
     (case torch_load sae_data 0 of
        Inl e \<Rightarrow> Inl e
      | Inr part0 \<Rightarrow>
          (let n_parts = int (length sae_data);
               examples_per_part = int (length part0);
               total_training_examples = n_parts * examples_per_part
           in if batch_size = 0 then Inl ZeroDivisionError
              else run_steps sae_data batch_size examples_per_part
                     \<lparr>current_part_index = 0, current_part = part0, offset = 0\<rparr>
                     (py_range (total_training_examples div batch_size))))"

text \<open>The batches of a run, in step order.\<close>

definition training_batches :: "'a list list \<Rightarrow> int \<Rightarrow> error + 'a list list" where
  "training_batches sae_data batch_size =
     (case training_trace sae_data batch_size of
        Inl e \<Rightarrow> Inl e
      | Inr tr \<Rightarrow> Inr (map fst tr))"

text \<open>
  The relation between the loader variables and the step about to run that the loop
  keeps: the current partition is the one the index names, the offset lies in
  \<open>0..B\<close>, and the start index of the next batch lies inside the current partition.
\<close>

definition loader_inv :: "'a list list \<Rightarrow> int \<Rightarrow> int \<Rightarrow> 'a loader \<Rightarrow> int \<Rightarrow> bool" where
  "loader_inv sae_data B E st step =
     (0 \<le> current_part_index st \<and> current_part_index st < int (length sae_data) \<and>
      current_part st = sae_data ! nat (current_part_index st) \<and>
      0 \<le> offset st \<and> offset st \<le> B \<and>
      0 \<le> step * B - current_part_index st * E - offset st \<and>
      step * B - current_part_index st * E - offset st \<le> E)"

text \<open>What a trace shows of a step: the first example of its batch, the length of the
  batch, and the partition index and offset after the step.\<close>

definition step_summary :: "'a list \<times> 'a loader \<Rightarrow> 'a \<times> nat \<times> int \<times> int" where
  "step_summary r = (hd (fst r), length (fst r), current_part_index (snd r), offset (snd r))"

section \<open>Tensors\<close>

text \<open>
  A tensor of rank 1 is a list of numbers and a tensor of rank 2 a list of rows. The
  script computes in floating point; here its numbers are real numbers, so rounding,
  overflow and infinities are not modelled. The one floating-point value kept is NaN,
  where the script takes the mean of no element: a loss is a \<open>real option\<close> and
  \<open>None\<close> stands for NaN.
\<close>

type_synonym vec = "real list"
type_synonym mat = "real list list"




definition dot :: "vec \<Rightarrow> vec \<Rightarrow> real" where
  "dot xs ys = sum_list (map2 (*) xs ys)"







text \<open>
  \<^verbatim>\<open>F.mse_loss\<close> with its default reduction, the mean over all elements, and
  \<^verbatim>\<open>F.l1_loss(..., reduction='sum')\<close>, for two tensors of one shape.
\<close>

definition mse_loss :: "mat \<Rightarrow> mat \<Rightarrow> real option" where
  "mse_loss input target =
     (let d = concat (map2 (map2 (\<lambda>a b. (a - b)\<^sup>2)) input target)
      in if d = [] then None else Some (sum_list d / real (length d)))"

definition l1_loss_sum :: "mat \<Rightarrow> mat \<Rightarrow> real" where
  "l1_loss_sum input target = sum_list (concat (map2 (map2 (\<lambda>a b. \<bar>a - b\<bar>)) input target))"

text \<open>\<^verbatim>\<open>torch.zeros(f.shape)\<close>.\<close>

definition zeros_like :: "mat \<Rightarrow> mat" where
  "zeros_like t = map (map (\<lambda>_. 0)) t"

section \<open>The autoencoder (lines 54--72)\<close>

text \<open>
  \<^verbatim>\<open>nn.Linear(in_features, out_features)\<close> holds a weight of shape
  \<open>(out_features, in_features)\<close> and a bias of \<open>out_features\<close> entries, and maps
  \<open>x\<close> to \<open>x W\<^sup>T + b\<close> along the last dimension.
\<close>

record linear_layer =
  weight :: mat
  bias :: vec

definition linear_shape :: "nat \<Rightarrow> nat \<Rightarrow> linear_layer \<Rightarrow> bool" where
  "linear_shape in_features out_features L =
     (length (weight L) = out_features \<and>
      list_all (\<lambda>row. length row = in_features) (weight L) \<and>
      length (bias L) = out_features)"

definition linear :: "linear_layer \<Rightarrow> vec \<Rightarrow> vec" where
  "linear L x = map2 (\<lambda>row b. dot row x + b) (weight L) (bias L)"

definition relu :: "vec \<Rightarrow> vec" where
  "relu v = map (max 0) v"

text \<open>
  \<^verbatim>\<open>AutoEncoder(n, m, lam)\<close>: \<open>enc\<close> is \<^verbatim>\<open>nn.Linear(n, m)\<close> and \<open>dec\<close> is
  \<^verbatim>\<open>nn.Linear(m, n)\<close>, so the decoder weight has \<open>n\<close> rows and \<open>m\<close> columns, one
  column per feature.
\<close>

record autoencoder =
  enc :: linear_layer
  dec :: linear_layer
  lam :: real

definition autoencoder_shape :: "nat \<Rightarrow> nat \<Rightarrow> autoencoder \<Rightarrow> bool" where
  "autoencoder_shape n m sae = (linear_shape n m (enc sae) \<and> linear_shape m n (dec sae))"

text \<open>The tuple that \<^verbatim>\<open>forward\<close> returns, in its order.\<close>

record sae_output =
  loss :: "real option"
  f :: mat
  reconst_acts :: mat
  mseloss :: "real option"
  l1loss :: real

text \<open>
  \<^verbatim>\<open>AutoEncoder.forward\<close> on a batch of shape \<open>(b, n)\<close>. A row whose width is not
  that of the decoder bias does not fit the subtraction of line 66 and is reported as a
  shape error (PyTorch's broadcasting of a width of one is not modelled).
\<close>

definition forward :: "autoencoder \<Rightarrow> mat \<Rightarrow> error + sae_output" where
  "forward sae acts =
     (if list_all (\<lambda>row. length row = length (bias (dec sae))) acts then
        (let x = map (\<lambda>row. map2 (-) row (bias (dec sae))) acts;
             f = map (\<lambda>xi. relu (linear (enc sae) xi)) x;
             reconst_acts = map (linear (dec sae)) f;
             mseloss = mse_loss reconst_acts acts;
             l1loss = l1_loss_sum f (zeros_like f);
             loss = map_option (\<lambda>mse. mse + lam sae * l1loss) mseloss
         in Inr \<lparr>loss = loss, f = f, reconst_acts = reconst_acts, mseloss = mseloss, l1loss = l1loss\<rparr>)
      else Inl ShapeError)"


text \<open>A small autoencoder with \<open>n = 1\<close> and \<open>m = 2\<close>, for examples.\<close>

definition example_sae :: autoencoder where
  "example_sae = \<lparr>enc = \<lparr>weight = [[1], [2]], bias = [0, - 1]\<rparr>,
                   dec = \<lparr>weight = [[1, 1]], bias = [1]\<rparr>, lam = 3\<rparr>"

subsection \<open>The forward pass as the specification words it\<close>

text \<open>
  Entry by entry: the centred input \<open>x = batch - decoder bias\<close>, the codes
  \<open>f = relu(enc(x))\<close>, the reconstruction \<open>dec(f)\<close>, the mean-squared error between
  the reconstruction and the uncentred batch (a mean over \<open>b * n\<close> entries, undefined
  when there is none), and the L1 norm of the codes summed over the batch.
\<close>

definition tabulate2 :: "nat \<Rightarrow> nat \<Rightarrow> (nat \<Rightarrow> nat \<Rightarrow> 'a) \<Rightarrow> 'a list list" where
  "tabulate2 b c g = map (\<lambda>i. map (g i) [0..<c]) [0..<b]"

definition spec_centered :: "autoencoder \<Rightarrow> mat \<Rightarrow> nat \<Rightarrow> nat \<Rightarrow> real" where
  "spec_centered sae acts i j = acts ! i ! j - bias (dec sae) ! j"

definition spec_codes :: "nat \<Rightarrow> autoencoder \<Rightarrow> mat \<Rightarrow> nat \<Rightarrow> nat \<Rightarrow> real" where
  "spec_codes n sae acts i k =
     max 0 ((\<Sum>j<n. weight (enc sae) ! k ! j * spec_centered sae acts i j) + bias (enc sae) ! k)"

definition spec_reconstruction :: "nat \<Rightarrow> nat \<Rightarrow> autoencoder \<Rightarrow> mat \<Rightarrow> nat \<Rightarrow> nat \<Rightarrow> real" where
  "spec_reconstruction n m sae acts i j =
     (\<Sum>k<m. weight (dec sae) ! j ! k * spec_codes n sae acts i k) + bias (dec sae) ! j"

definition spec_mse :: "nat \<Rightarrow> nat \<Rightarrow> autoencoder \<Rightarrow> mat \<Rightarrow> real option" where
  "spec_mse n m sae acts =
     (if length acts * n = 0 then None
      else Some ((\<Sum>i<length acts. \<Sum>j<n. (spec_reconstruction n m sae acts i j - acts ! i ! j)\<^sup>2)
                 / real (length acts * n)))"

definition spec_l1 :: "nat \<Rightarrow> nat \<Rightarrow> autoencoder \<Rightarrow> mat \<Rightarrow> real" where
  "spec_l1 n m sae acts = (\<Sum>i<length acts. \<Sum>k<m. \<bar>spec_codes n sae acts i k\<bar>)"

section \<open>Gradient projection and renormalization (lines 76--85, 201--202, 249--252)\<close>




section \<open>The normalized reconstruction score (line 298)\<close>

definition nll_score :: "real \<Rightarrow> real \<Rightarrow> real \<Rightarrow> real" where
  "nll_score full_loss mlp_ablated_loss reconst_nll =
     (full_loss - reconst_nll) / (full_loss - mlp_ablated_loss)"

section \<open>The evaluation pass: feature activation counts (lines 113, 162, 173, 263--283, 301)\<close>

text \<open>
  The held-out activations \<^verbatim>\<open>mlp_activations_storage\<close> are a tensor of rank 3: a list of
  contexts, each a list of \<open>block_size\<close> token positions, each an activation vector.
  \<^verbatim>\<open>selected_tokens_loc\<close> (line 162) is a list with one entry per context, the token
  positions sampled for it. \<^verbatim>\<open>slice_fn\<close> (line 113) cuts the sub-batch of the loop
  variable \<^verbatim>\<open>iter\<close> out of a stored tensor.
\<close>

definition slice_fn :: "'a list \<Rightarrow> nat \<Rightarrow> nat \<Rightarrow> 'a list" where
  "slice_fn storage iter gpt_batch_size =
     py_slice storage (Some (int iter * int gpt_batch_size)) (Some ((int iter + 1) * int gpt_batch_size))"

text \<open>Indexing with an index that is not negative; outside the sequence it raises.\<close>

definition nth_checked :: "'a list \<Rightarrow> nat \<Rightarrow> error + 'a" where
  "nth_checked xs i = (if i < length xs then Inr (xs ! i) else Inl IndexError)"

text \<open>A comprehension whose body can raise: the first exception ends it.\<close>

fun map_err :: "('a \<Rightarrow> error + 'b) \<Rightarrow> 'a list \<Rightarrow> error + 'b list" where
  "map_err g [] = Inr []"
| "map_err g (x # xs) =
     (case g x of
        Inl e \<Rightarrow> Inl e
      | Inr y \<Rightarrow> (case map_err g xs of Inl e \<Rightarrow> Inl e | Inr ys \<Rightarrow> Inr (y # ys)))"

text \<open>
  Line 278, \<^verbatim>\<open>batch_f\<close>: the codes of the forward pass on a sub-batch of rank 3. The
  layers act on the last dimension, so the codes of a context are those of the forward
  pass on the context alone.
\<close>

definition forward_codes3 :: "autoencoder \<Rightarrow> mat list \<Rightarrow> error + mat list" where
  "forward_codes3 sae batch =
     map_err (\<lambda>ctx. case forward sae ctx of Inl e \<Rightarrow> Inl e | Inr out \<Rightarrow> Inr (f out)) batch"

text \<open>
  Line 282: for every context \<open>i\<close> of the sub-batch, the codes at the positions
  \<^verbatim>\<open>selected_tokens_loc[iter]\<close>.
\<close>

definition selected_feature_acts :: "mat list \<Rightarrow> nat list list \<Rightarrow> nat \<Rightarrow> nat \<Rightarrow> error + mat list" where
  "selected_feature_acts batch_f selected_tokens_loc iter gpt_batch_size =
     map_err (\<lambda>i. case nth_checked selected_tokens_loc iter of
                     Inl e \<Rightarrow> Inl e
                   | Inr locs \<Rightarrow>
                       (case nth_checked batch_f i of
                          Inl e \<Rightarrow> Inl e
                        | Inr ctx \<Rightarrow> map_err (nth_checked ctx) locs))
       [0..<gpt_batch_size]"

text \<open>
  \<^verbatim>\<open>torch.count_nonzero(t, dim=[0, 1])\<close> on a tensor of rank 3 whose last dimension is
  \<open>n_features\<close>: per feature, the number of rows in which it is not zero.
\<close>

definition count_nonzero_dim01 :: "nat \<Rightarrow> mat list \<Rightarrow> nat list" where
  "count_nonzero_dim01 n_features t =
     map (\<lambda>j. length (filter (\<lambda>row. row ! j \<noteq> 0) (concat t))) [0..<n_features]"

text \<open>
  The loop of line 265, as far as \<^verbatim>\<open>feature_activation_counts\<close> goes (lines 278--283),
  and the whole pass: the counters start at zero (line 263) and the loop runs
  \<open>eval_contexts // gpt_batch_size\<close> times (line 173).
\<close>

fun accumulate_counts ::
  "autoencoder \<Rightarrow> nat \<Rightarrow> mat list \<Rightarrow> nat list list \<Rightarrow> nat \<Rightarrow> nat list \<Rightarrow> nat list \<Rightarrow> error + nat list" where
  "accumulate_counts sae n_features storage selected_tokens_loc gpt_batch_size counts [] = Inr counts"
| "accumulate_counts sae n_features storage selected_tokens_loc gpt_batch_size counts (iter # iters) =
     (case forward_codes3 sae (slice_fn storage iter gpt_batch_size) of
        Inl e \<Rightarrow> Inl e
      | Inr batch_f \<Rightarrow>
          (case selected_feature_acts batch_f selected_tokens_loc iter gpt_batch_size of
             Inl e \<Rightarrow> Inl e
           | Inr sel \<Rightarrow>
               accumulate_counts sae n_features storage selected_tokens_loc gpt_batch_size
                 (map2 (+) counts (count_nonzero_dim01 n_features sel)) iters))"

definition feature_activation_counts ::
  "autoencoder \<Rightarrow> nat \<Rightarrow> mat list \<Rightarrow> nat list list \<Rightarrow> nat \<Rightarrow> nat \<Rightarrow> error + nat list" where
  "feature_activation_counts sae n_features storage selected_tokens_loc gpt_batch_size eval_contexts =
     (if gpt_batch_size = 0 then Inl ZeroDivisionError
      else accumulate_counts sae n_features storage selected_tokens_loc gpt_batch_size
             (replicate n_features 0) [0..<eval_contexts div gpt_batch_size])"


text \<open>
  The counts as the specification words them: every evaluated context \<open>c\<close> is read at
  the positions sampled for that context, \<^verbatim>\<open>selected_tokens_loc[c]\<close>.
\<close>

definition own_position_counts ::
  "autoencoder \<Rightarrow> nat \<Rightarrow> mat list \<Rightarrow> nat list list \<Rightarrow> nat \<Rightarrow> nat \<Rightarrow> error + nat list" where
  "own_position_counts sae n_features storage selected_tokens_loc gpt_batch_size eval_contexts =
     (case forward_codes3 sae (take (eval_contexts div gpt_batch_size * gpt_batch_size) storage) of
        Inl e \<Rightarrow> Inl e
      | Inr codes \<Rightarrow>
          (case map_err (\<lambda>c. case nth_checked selected_tokens_loc c of
                                Inl e \<Rightarrow> Inl e
                              | Inr locs \<Rightarrow>
                                  (case nth_checked codes c of
                                     Inl e \<Rightarrow> Inl e
                                   | Inr ctx \<Rightarrow> map_err (nth_checked ctx) locs))
                  [0..<eval_contexts div gpt_batch_size * gpt_batch_size] of
             Inl e \<Rightarrow> Inl e
           | Inr sel \<Rightarrow> Inr (count_nonzero_dim01 n_features sel)))"

text \<open>An autoencoder with \<open>n = m = 1\<close> whose code is the relu of its input, for examples.\<close>

definition relu_sae :: autoencoder where
  "relu_sae = \<lparr>enc = \<lparr>weight = [[1]], bias = [0]\<rparr>, dec = \<lparr>weight = [[1]], bias = [0]\<rparr>, lam = 1\<rparr>"

section \<open>Properties of the sharded activation stream\<close>

lemma length_py_slice_from:
  "0 \<le> i \<Longrightarrow> i \<le> int (length xs) \<Longrightarrow> int (length (py_slice xs (Some i) None)) = int (length xs) - i"
  by (simp add: py_slice_def slice_bound_def)

lemma length_py_slice_upto:
  "0 \<le> j \<Longrightarrow> j \<le> int (length xs) \<Longrightarrow> int (length (py_slice xs None (Some j))) = j"
  by (simp add: py_slice_def slice_bound_def)

lemma length_py_slice_between:
  "0 \<le> i \<Longrightarrow> i \<le> j \<Longrightarrow> j \<le> int (length xs) \<Longrightarrow>
   int (length (py_slice xs (Some i) (Some j))) = j - i"
  by (simp add: py_slice_def slice_bound_def Let_def)

lemma load_batch_inv:
  assumes parts: "list_all (\<lambda>p. int (length p) = E) sae_data"
    and B: "0 < B" "B \<le> E"
    and inv: "loader_inv sae_data B E st step"
    and step: "(step + 1) * B \<le> int (length sae_data) * E"
  shows "\<exists>batch st'. load_batch sae_data B E st step = Inr (batch, st') \<and>
           int (length batch) = B \<and> loader_inv sae_data B E st' (step + 1)"
proof -
  define k where "k = current_part_index st"
  define bs where "bs = step * B - k * E - offset st"
  define be where "be = (step + 1) * B - k * E - offset st"
  have be_bs: "be = bs + B" by (simp add: be_def bs_def algebra_simps)
  have k: "0 \<le> k" "k < int (length sae_data)" and cur: "current_part st = sae_data ! nat k"
    and off: "0 \<le> offset st" "offset st \<le> B" and bs: "0 \<le> bs" "bs \<le> E"
    using inv by (simp_all add: loader_inv_def k_def bs_def)
  have len: "\<And>i. 0 \<le> i \<Longrightarrow> i < int (length sae_data) \<Longrightarrow> int (length (sae_data ! nat i)) = E"
    using parts by (simp add: list_all_length)
  have lcur: "int (length (current_part st)) = E" using len k cur by simp
  show ?thesis
  proof (cases "be > E \<and> k < int (length sae_data) - 1")
    case True
    define part where "part = sae_data ! nat (k + 1)"
    have lpart: "int (length part) = E" unfolding part_def using len [of "k + 1"] k True by simp
    have load: "torch_load sae_data (k + 1) = Inr part"
      using k True by (simp add: torch_load_def part_def)
    define st' where "st' = \<lparr>current_part_index = k + 1, current_part = part, offset = B - (E - bs)\<rparr>"
    define batch where "batch = py_slice (current_part st) (Some bs) None @ py_slice part None (Some (B - (E - bs)))"
    have l1: "int (length (py_slice (current_part st) (Some bs) None)) = E - bs"
      using length_py_slice_from [of bs "current_part st"] bs lcur by simp
    have l2: "int (length (py_slice part None (Some (B - (E - bs))))) = B - (E - bs)"
      using length_py_slice_upto [of "B - (E - bs)" part] lpart True be_bs bs B by simp
    have lb: "int (length batch) = B" unfolding batch_def using l1 l2 by simp
    have eq: "load_batch sae_data B E st step = Inr (batch, st')"
      using True load l1 l2
      by (simp add: load_batch_def Let_def k_def [symmetric] bs_def [symmetric] be_def [symmetric]
          assert_len_def batch_def st'_def)
    have "(step + 1) * B - (k + 1) * E - (B - (E - bs)) = offset st"
      by (simp add: bs_def algebra_simps)
    then have "loader_inv sae_data B E st' (step + 1)"
      using k True off B bs be_bs by (simp add: loader_inv_def st'_def part_def)
    with eq lb show ?thesis by blast
  next
    case False
    have beE: "be \<le> E"
    proof (cases "be > E")
      case True
      with False k have n: "int (length sae_data) = k + 1" by simp
      have "int (length sae_data) * E = k * E + E" unfolding n by (simp add: algebra_simps)
      then show ?thesis using step off by (simp add: be_def)
    next
      case False then show ?thesis by simp
    qed
    define batch where "batch = py_slice (current_part st) (Some bs) (Some be)"
    have lb: "int (length batch) = B"
      unfolding batch_def using length_py_slice_between [of bs be "current_part st"] bs beE be_bs B lcur by simp
    have eq: "load_batch sae_data B E st step = Inr (batch, st)"
      using beE lb
      by (simp add: load_batch_def Let_def k_def [symmetric] bs_def [symmetric] be_def [symmetric]
          assert_len_def batch_def)
    have "(step + 1) * B - k * E - offset st = be" by (simp add: be_def)
    then have "loader_inv sae_data B E st (step + 1)"
      using k cur off B bs be_bs beE by (simp add: loader_inv_def k_def [symmetric])
    with eq lb show ?thesis by blast
  qed
qed

lemma run_steps_inv:
  assumes parts: "list_all (\<lambda>p. int (length p) = E) sae_data"
    and B: "0 < B" "B \<le> E"
  shows "loader_inv sae_data B E st (int lo) \<Longrightarrow> int (lo + n) * B \<le> int (length sae_data) * E \<Longrightarrow>
         \<exists>tr. run_steps sae_data B E st (map int [lo..<lo + n]) = Inr tr \<and> length tr = n \<and>
              list_all (\<lambda>(batch, st'). int (length batch) = B) tr"
proof (induction n arbitrary: st lo)
  case 0
  then show ?case by simp
next
  case (Suc n)
  have "(int lo + 1) * B \<le> int (lo + Suc n) * B"
    using B by (intro mult_right_mono) simp_all
  with Suc.prems have "(int lo + 1) * B \<le> int (length sae_data) * E" by linarith
  from load_batch_inv [OF parts B Suc.prems(1) this]
  obtain batch st' where lb: "load_batch sae_data B E st (int lo) = Inr (batch, st')"
    and len: "int (length batch) = B" and inv': "loader_inv sae_data B E st' (int lo + 1)"
    by blast
  have inv'': "loader_inv sae_data B E st' (int (Suc lo))" using inv' by (simp add: add.commute)
  have "int (Suc lo + n) * B \<le> int (length sae_data) * E" using Suc.prems(2) by simp
  from Suc.IH [OF inv'' this]
  obtain tr where tr: "run_steps sae_data B E st' (map int [Suc lo..<Suc lo + n]) = Inr tr"
    and ltr: "length tr = n" and all: "list_all (\<lambda>(batch, st'). int (length batch) = B) tr"
    by blast
  have "[lo..<lo + Suc n] = lo # [Suc lo..<Suc lo + n]" by (simp add: upt_rec)
  then have "run_steps sae_data B E st (map int [lo..<lo + Suc n]) = Inr ((batch, st') # tr)"
    using lb tr by simp
  then show ?case using ltr all len by simp
qed

text \<open>
  C10. If every partition holds exactly \<open>E\<close> examples and \<open>0 < B \<le> E\<close>, the run
  raises nothing: it returns one batch for every step of
  \<open>range(n_parts * E // B)\<close>, and every batch has exactly \<open>B\<close> examples, so the
  assertion of line 235 never fires.
\<close>

theorem C10_no_short_batch:
  assumes ne: "sae_data \<noteq> []"
    and parts: "list_all (\<lambda>p. int (length p) = E) sae_data"
    and B: "0 < B" "B \<le> E"
  shows "\<exists>batches. training_batches sae_data B = Inr batches \<and>
           int (length batches) = (int (length sae_data) * E) div B \<and>
           list_all (\<lambda>batch. int (length batch) = B) batches"
proof -
  define part0 where "part0 = sae_data ! 0"
  have load: "torch_load sae_data 0 = Inr part0" using ne by (simp add: torch_load_def part0_def)
  have l0: "int (length part0) = E" using parts ne by (simp add: list_all_length part0_def)
  define st0 :: "'a loader" where "st0 = \<lparr>current_part_index = 0, current_part = part0, offset = 0\<rparr>"
  define T where "T = nat ((int (length sae_data) * E) div B)"
  have nonneg: "0 \<le> (int (length sae_data) * E) div B"
    using B by (simp add: pos_imp_zdiv_nonneg_iff)
  have inv0: "loader_inv sae_data B E st0 (int 0)"
    using ne B by (simp add: loader_inv_def st0_def part0_def)
  have "(int (length sae_data) * E) div B * B + (int (length sae_data) * E) mod B = int (length sae_data) * E"
    by simp
  moreover have "0 \<le> (int (length sae_data) * E) mod B" using B by simp
  ultimately have "(int (length sae_data) * E) div B * B \<le> int (length sae_data) * E" by linarith
  then have "int (0 + T) * B \<le> int (length sae_data) * E"
    using nonneg unfolding T_def by simp
  from run_steps_inv [OF parts B inv0 this]
  obtain tr where tr: "run_steps sae_data B E st0 (map int [0..<0 + T]) = Inr tr"
    and ltr: "length tr = T" and all: "list_all (\<lambda>(batch, st'). int (length batch) = B) tr"
    by blast
  have "training_trace sae_data B = Inr tr"
    using load l0 B tr by (simp add: training_trace_def py_range_def T_def st0_def)
  then have "training_batches sae_data B = Inr (map fst tr)" by (simp add: training_batches_def)
  moreover have "int (length (map fst tr)) = (int (length sae_data) * E) div B"
    using ltr nonneg by (simp add: T_def)
  moreover have "list_all (\<lambda>batch. int (length batch) = B) (map fst tr)"
    using all by (simp add: list_all_iff case_prod_beta)
  ultimately show ?thesis by blast
qed

theorem C10_no_short_batch_witness:
  "[[0, 1, 2], [3, 4, 5::nat]] \<noteq> [] \<and>
   list_all (\<lambda>p. int (length p) = 3) [[0, 1, 2], [3, 4, 5::nat]] \<and> (0::int) < 2 \<and> (2::int) \<le> 3 \<and>
   (\<exists>batches. training_batches [[0, 1, 2], [3, 4, 5::nat]] 2 = Inr batches \<and>
      int (length batches) = (int (length [[0, 1, 2], [3, 4, 5::nat]]) * 3) div 2 \<and>
      list_all (\<lambda>batch. int (length batch) = 2) batches)"
  using C10_no_short_batch [of "[[0, 1, 2], [3, 4, 5::nat]]" 3 2] by simp

text \<open>
  C1. Two partitions of three examples, \<open>[0, 1, 2]\<close> and \<open>[3, 4, 5]\<close>, and batches of
  two: the run returns the batches \<open>[0, 1]\<close>, \<open>[2, 3]\<close>, \<open>[3, 4]\<close>. After the
  crossing the start index is computed with the offset subtracted, so the batch of
  step 2 starts again at the head of partition 1: example 3 is served twice and
  example 5 never, and the batches in order are not the partitions in order.
\<close>

theorem C1_stream_repeats_examples:
  "training_batches [[0, 1, 2], [3, 4, 5::nat]] 2 = Inr [[0, 1], [2, 3], [3, 4]] \<and>
   concat [[0, 1], [2, 3], [3, 4::nat]] \<noteq> take (3 * 2) (concat [[0, 1, 2], [3, 4, 5]])"
  by (simp add: training_batches_def training_trace_def torch_load_def py_range_def
      load_batch_def assert_len_def py_slice_def slice_bound_def upt_rec)

text \<open>
  C7. Two partitions of 100 examples, each example being its global index, and
  batches of 64: the run has exactly three steps, the partition index goes from 0 to
  1 at step 1 and stays, the offset after the crossing is 28, and the three batches
  start at the examples 0, 64 and 100. The third batch starts at the head of
  partition 1 (global index 100), not at its offset 28 (global index 128).
\<close>

theorem C7_third_batch_start:
  "map_sum id (map step_summary) (training_trace [[0..<100], [100..<200]] 64) =
     Inr [(0, 64, 0, 0), (64, 64, 1, 28), (100, 64, 1, 28)]"
  by code_simp

section \<open>Properties of the autoencoder, the projection and the score\<close>

lemma sum_list_upt: "sum_list (map g [0..<n]) = (\<Sum>i<n. (g i :: real))"
  by (simp add: interv_sum_list_conv_sum_set_nat atLeast0LessThan)

lemma dot_sum: "length xs = length ys \<Longrightarrow> dot xs ys = (\<Sum>j<length xs. xs ! j * ys ! j)"
proof -
  assume l: "length xs = length ys"
  have "map2 (*) xs ys = map (\<lambda>j. xs ! j * ys ! j) [0..<length xs]"
    using l by (intro nth_equalityI) simp_all
  then show ?thesis by (simp add: dot_def sum_list_upt)
qed

lemma linear_tabulate:
  assumes "linear_shape n m L" "length x = n"
  shows "linear L x = map (\<lambda>k. (\<Sum>j<n. weight L ! k ! j * x ! j) + bias L ! k) [0..<m]"
proof (intro nth_equalityI)
  show "length (linear L x) = length (map (\<lambda>k. (\<Sum>j<n. weight L ! k ! j * x ! j) + bias L ! k) [0..<m])"
    using assms by (simp add: linear_def linear_shape_def)
next
  fix k assume "k < length (linear L x)"
  then have k: "k < m" using assms by (simp add: linear_def linear_shape_def)
  then have "length (weight L ! k) = n" using assms by (simp add: linear_shape_def list_all_length)
  then have "dot (weight L ! k) x = (\<Sum>j<n. weight L ! k ! j * x ! j)"
    using dot_sum [of "weight L ! k" x] assms by simp
  then show "linear L x ! k = map (\<lambda>k. (\<Sum>j<n. weight L ! k ! j * x ! j) + bias L ! k) [0..<m] ! k"
    using k assms by (simp add: linear_def linear_shape_def)
qed

lemma tabulate2_self:
  "list_all (\<lambda>row. length row = c) xss \<Longrightarrow> tabulate2 (length xss) c (\<lambda>i j. xss ! i ! j) = xss"
  unfolding tabulate2_def
  by (intro nth_equalityI) (simp_all add: list_all_length map_nth)

lemma map2_tabulate2:
  "map2 (map2 h) (tabulate2 b c g1) (tabulate2 b c g2) = tabulate2 b c (\<lambda>i j. h (g1 i j) (g2 i j))"
  unfolding tabulate2_def
  by (intro nth_equalityI) (simp_all add: map2_map_map)

lemma sum_list_concat_rows: "sum_list (concat xss) = sum_list (map sum_list (xss :: real list list))"
  by (induction xss) simp_all

lemma sum_list_concat_tabulate2:
  "sum_list (concat (tabulate2 b c g)) = (\<Sum>i<b. \<Sum>j<c. (g i j :: real))"
  by (simp add: tabulate2_def sum_list_concat_rows comp_def sum_list_upt)

lemma length_concat_tabulate2: "length (concat (tabulate2 b c g)) = b * c"
  by (simp add: tabulate2_def length_concat comp_def sum_list_triv)

lemma zeros_like_tabulate2: "zeros_like (tabulate2 b c g) = tabulate2 b c (\<lambda>i j. 0)"
  by (simp add: zeros_like_def tabulate2_def comp_def)

lemma codes_row:
  assumes sh: "autoencoder_shape n m sae" and acts: "list_all (\<lambda>row. length row = n) acts"
    and i: "i < length acts"
  shows "relu (linear (enc sae) (map2 (-) (acts ! i) (bias (dec sae)))) = map (spec_codes n sae acts i) [0..<m]"
proof -
  have e: "linear_shape n m (enc sae)" and d: "linear_shape m n (dec sae)"
    using sh by (simp_all add: autoencoder_shape_def)
  have lb: "length (bias (dec sae)) = n" using d by (simp add: linear_shape_def)
  have li: "length (acts ! i) = n" using acts i by (simp add: list_all_length)
  define x where "x = map2 (-) (acts ! i) (bias (dec sae))"
  have lx: "length x = n" using li lb by (simp add: x_def)
  have xj: "\<And>j. j < n \<Longrightarrow> x ! j = spec_centered sae acts i j"
    using li lb by (simp add: x_def spec_centered_def)
  have "relu (linear (enc sae) x) = map (spec_codes n sae acts i) [0..<m]"
    unfolding linear_tabulate [OF e lx] relu_def spec_codes_def
    using xj by simp
  then show ?thesis by (simp add: x_def)
qed

lemma forward_codes:
  assumes sh: "autoencoder_shape n m sae" and acts: "list_all (\<lambda>row. length row = n) acts"
  shows "map (\<lambda>xi. relu (linear (enc sae) xi)) (map (\<lambda>row. map2 (-) row (bias (dec sae))) acts)
         = tabulate2 (length acts) m (spec_codes n sae acts)"
  unfolding tabulate2_def
  by (rule nth_equalityI) (simp_all add: codes_row [OF sh acts])

lemma forward_reconstruction:
  assumes sh: "autoencoder_shape n m sae"
  shows "map (linear (dec sae)) (tabulate2 b m (spec_codes n sae acts))
         = tabulate2 b n (spec_reconstruction n m sae acts)"
proof -
  have d: "linear_shape m n (dec sae)" using sh by (simp add: autoencoder_shape_def)
  have "\<And>i. linear (dec sae) (map (spec_codes n sae acts i) [0..<m]) = map (spec_reconstruction n m sae acts i) [0..<n]"
  proof -
    fix i
    have "length (map (spec_codes n sae acts i) [0..<m]) = m" by simp
    from linear_tabulate [OF d this] show "linear (dec sae) (map (spec_codes n sae acts i) [0..<m]) = map (spec_reconstruction n m sae acts i) [0..<n]"
      by (simp add: spec_reconstruction_def)
  qed
  then show ?thesis by (simp add: tabulate2_def)
qed

lemma mse_loss_tabulate2:
  "mse_loss (tabulate2 b c g1) (tabulate2 b c g2) =
     (if b * c = 0 then None else Some ((\<Sum>i<b. \<Sum>j<c. (g1 i j - g2 i j)\<^sup>2) / real (b * c)))"
proof -
  define T where "T = tabulate2 b c (\<lambda>i j. (g1 i j - g2 i j)\<^sup>2)"
  have len: "length (concat T) = b * c" unfolding T_def by (rule length_concat_tabulate2)
  have sum: "sum_list (concat T) = (\<Sum>i<b. \<Sum>j<c. (g1 i j - g2 i j)\<^sup>2)"
    unfolding T_def by (rule sum_list_concat_tabulate2)
  have "(concat T = []) = (length (concat T) = 0)" by simp
  then have empty: "(concat T = []) = (b * c = 0)" by (simp only: len)
  have "mse_loss (tabulate2 b c g1) (tabulate2 b c g2) =
          (if concat T = [] then None else Some (sum_list (concat T) / real (length (concat T))))"
    unfolding mse_loss_def map2_tabulate2 Let_def T_def ..
  then show ?thesis by (simp only: empty sum len)
qed

lemma l1_loss_sum_tabulate2:
  "l1_loss_sum (tabulate2 b c g) (zeros_like (tabulate2 b c g)) = (\<Sum>i<b. \<Sum>j<c. \<bar>g i j\<bar>)"
  unfolding l1_loss_sum_def zeros_like_tabulate2 map2_tabulate2
  by (simp add: sum_list_concat_tabulate2)

lemma forward_spec:
  assumes sh: "autoencoder_shape n m sae" and acts: "list_all (\<lambda>row. length row = n) acts"
  shows "forward sae acts =
           Inr \<lparr>loss = map_option (\<lambda>mse. mse + lam sae * spec_l1 n m sae acts) (spec_mse n m sae acts),
                f = tabulate2 (length acts) m (spec_codes n sae acts),
                reconst_acts = tabulate2 (length acts) n (spec_reconstruction n m sae acts),
                mseloss = spec_mse n m sae acts,
                l1loss = spec_l1 n m sae acts\<rparr>"
proof -
  have d: "linear_shape m n (dec sae)" using sh by (simp add: autoencoder_shape_def)
  have lb: "length (bias (dec sae)) = n" using d by (simp add: linear_shape_def)
  define F where "F = tabulate2 (length acts) m (spec_codes n sae acts)"
  define R where "R = tabulate2 (length acts) n (spec_reconstruction n m sae acts)"
  have codes: "map (\<lambda>xi. relu (linear (enc sae) xi)) (map (\<lambda>row. map2 (-) row (bias (dec sae))) acts) = F"
    unfolding F_def by (rule forward_codes [OF sh acts])
  have rec: "map (linear (dec sae)) F = R"
    unfolding F_def R_def by (rule forward_reconstruction [OF sh])
  have A: "tabulate2 (length acts) n (\<lambda>i j. acts ! i ! j) = acts"
    by (rule tabulate2_self [OF acts])
  have "mse_loss R (tabulate2 (length acts) n (\<lambda>i j. acts ! i ! j)) = spec_mse n m sae acts"
    unfolding R_def mse_loss_tabulate2 spec_mse_def ..
  then have mse: "mse_loss R acts = spec_mse n m sae acts" by (simp only: A)
  have l1: "l1_loss_sum F (zeros_like F) = spec_l1 n m sae acts"
    unfolding F_def l1_loss_sum_tabulate2 spec_l1_def ..
  have ok: "list_all (\<lambda>row. length row = length (bias (dec sae))) acts" using acts lb by simp
  have "forward sae acts =
     Inr \<lparr>loss = map_option (\<lambda>mse. mse + lam sae * l1_loss_sum F (zeros_like F)) (mse_loss R acts),
          f = F, reconst_acts = R, mseloss = mse_loss R acts, l1loss = l1_loss_sum F (zeros_like F)\<rparr>"
    unfolding forward_def Let_def codes rec using ok by (simp only: if_True)
  then have "forward sae acts =
     Inr \<lparr>loss = map_option (\<lambda>mse. mse + lam sae * spec_l1 n m sae acts) (spec_mse n m sae acts),
          f = F, reconst_acts = R, mseloss = spec_mse n m sae acts, l1loss = spec_l1 n m sae acts\<rparr>"
    by (simp only: mse l1)
  then show ?thesis unfolding F_def R_def .
qed

text \<open>
  C4. For an autoencoder of shape \<open>(n, m)\<close> and a batch of shape \<open>(b, n)\<close> the forward
  pass raises nothing and returns, entry by entry, what the specification words: the
  codes \<open>relu(enc(batch - decoder bias))\<close>, their reconstruction by the decoder, the
  mean over all \<open>b * n\<close> entries of the squared difference between the reconstruction
  and the uncentred batch, the sum over the whole batch of the absolute values of the
  codes, and the loss \<open>MSE + lam * L1\<close>.
\<close>

theorem C4_forward_computes:
  assumes "autoencoder_shape n m sae" and "list_all (\<lambda>row. length row = n) acts"
  shows "forward sae acts =
           Inr \<lparr>loss = map_option (\<lambda>mse. mse + lam sae * spec_l1 n m sae acts) (spec_mse n m sae acts),
                f = tabulate2 (length acts) m (spec_codes n sae acts),
                reconst_acts = tabulate2 (length acts) n (spec_reconstruction n m sae acts),
                mseloss = spec_mse n m sae acts,
                l1loss = spec_l1 n m sae acts\<rparr>"
  using assms by (rule forward_spec)

theorem C4_forward_computes_witness:
  "autoencoder_shape 1 2 example_sae \<and> list_all (\<lambda>row. length row = 1) [[2], [0]] \<and>
   forward example_sae [[2], [0]] =
     Inr \<lparr>loss = map_option (\<lambda>mse. mse + lam example_sae * spec_l1 1 2 example_sae [[2], [0]])
                    (spec_mse 1 2 example_sae [[2], [0]]),
          f = tabulate2 (length [[2], [0::real]]) 2 (spec_codes 1 example_sae [[2], [0]]),
          reconst_acts = tabulate2 (length [[2], [0::real]]) 1 (spec_reconstruction 1 2 example_sae [[2], [0]]),
          mseloss = spec_mse 1 2 example_sae [[2], [0]],
          l1loss = spec_l1 1 2 example_sae [[2], [0]]\<rparr> \<and>
   spec_mse 1 2 example_sae [[2], [0]] = Some 1 \<and> spec_l1 1 2 example_sae [[2], [0]] = 2"
  using C4_forward_computes [of 1 2 example_sae "[[2], [0]]"]
  by (simp add: autoencoder_shape_def linear_shape_def example_sae_def spec_mse_def spec_l1_def
      spec_reconstruction_def spec_codes_def spec_centered_def lessThan_Suc numeral_2_eq_2)




text \<open>
  C2. With full loss 2 and ablated loss 1 the score of line 298 is 0, not 1, when the
  reconstruction loss equals the full loss, and 1, not 0, when it equals the ablated
  loss.
\<close>

theorem C2_nll_score_counterexample:
  "(2::real) \<noteq> 1 \<and> nll_score 2 1 2 = 0 \<and> nll_score 2 1 2 \<noteq> 1 \<and> nll_score 2 1 1 = 1 \<and> nll_score 2 1 1 \<noteq> 0"
  by (simp add: nll_score_def)

text \<open>
  C2, amended. When the full loss and the ablated loss differ, the score
  \<open>(full_loss - reconst_nll) / (full_loss - mlp_ablated_loss)\<close> is 0 when the
  reconstruction loss equals the full loss and 1 when it equals the ablated loss.
\<close>

theorem C2_nll_score_boundaries:
  assumes "full_loss \<noteq> mlp_ablated_loss"
  shows "nll_score full_loss mlp_ablated_loss full_loss = 0 \<and>
         nll_score full_loss mlp_ablated_loss mlp_ablated_loss = 1"
  using assms by (simp add: nll_score_def)

theorem C2_nll_score_boundaries_witness:
  "(2::real) \<noteq> 1 \<and> nll_score 2 1 2 = 0 \<and> nll_score 2 1 1 = 1"
  using C2_nll_score_boundaries [of 2 1] by simp






















section \<open>Properties of the evaluation pass\<close>

















text \<open>
  C3. Two contexts of two positions and one feature, evaluated in one sub-batch of
  two; position 0 was sampled for context 0 and position 1 for context 1. The code of
  context 1 is 0 at position 0 and 1 at position 1. The pass reads both contexts at
  \<^verbatim>\<open>selected_tokens_loc[iter]\<close>, the positions of context 0, and counts 1; read at its
  own position context 1 counts as well, and the count is 2.
\<close>

theorem C3_counts_use_batch_index:
  "feature_activation_counts relu_sae 1 [[[1], [1]], [[0], [1]]] [[0], [1]] 2 2 = Inr [1] \<and>
   own_position_counts relu_sae 1 [[[1], [1]], [[0], [1]]] [[0], [1]] 2 2 = Inr [2]"
  by (simp add: feature_activation_counts_def own_position_counts_def relu_sae_def forward_codes3_def
      slice_fn_def py_slice_def slice_bound_def forward_def Let_def linear_def relu_def dot_def
      selected_feature_acts_def nth_checked_def count_nonzero_dim01_def upt_rec numeral_2_eq_2)

end
